theory Spec2Isabelle
  imports Main
begin

section \<open>Conclusions and step stages\<close>

text \<open>
  Modelled from the spec: the declarations of \<open>core.Conclusion\<close> and \<open>core.StepStage\<close> are
  not among the sources. The spec gives the closed set of five conclusions and of five
  stages. Go gives every type a zero value, which is what a missing map entry reads as;
  it is kept apart as \<open>ConclusionZero\<close>, and no definition below treats it specially.
\<close>

datatype Conclusion =
    ConclusionZero
  | ConclusionSuccess
  | ConclusionFailure
  | ConclusionCancelled
  | ConclusionSkipped
  | ConclusionNeutral

datatype StepStage =
    StepStageSetup
  | StepStagePre
  | StepStageMain
  | StepStagePost
  | StepStageComplete

text \<open>
  Modelled from the spec: the function that derives a conclusion from an outcome and the
  continue-on-error flag is not among the sources (only the flag \<open>Step.ContinueOnError\<close>
  is). The spec's rule: with continue-on-error enabled a Failure becomes Success, every
  other outcome is kept.
\<close>

fun resolve :: "Conclusion \<Rightarrow> bool \<Rightarrow> Conclusion" where
  "resolve ConclusionFailure True = ConclusionSuccess"
| "resolve outcome continueOnError = outcome"

section \<open>The heap of string maps\<close>

text \<open>
  A Go \<open>map[string]string\<close> is a reference: assigning it copies the reference, and a write
  through one copy is seen through every other. The maps live in a heap; a field of map
  type holds \<open>None\<close> for the nil map or \<open>Some a\<close> for the map object at address \<open>a\<close>.
\<close>

type_synonym strmap = "string \<rightharpoonup> string"
type_synonym mapref = "nat option"
type_synonym heap = "nat \<Rightarrow> strmap"

text \<open>Reading a map: the nil map reads as the empty map.\<close>

definition deref :: "heap \<Rightarrow> mapref \<Rightarrow> strmap" where
  "deref h r = (case r of None \<Rightarrow> Map.empty | Some a \<Rightarrow> h a)"

text \<open>\<open>m[k] = v\<close>: a write to the nil map panics (\<open>None\<close>).\<close>

definition mapassign :: "mapref \<Rightarrow> string \<Rightarrow> string \<Rightarrow> heap \<Rightarrow> heap option" where
  "mapassign m k v h =
     (case m of None \<Rightarrow> None | Some a \<Rightarrow> Some (h(a := (h a)(k \<mapsto> v))))"

text \<open>
  \<open>for k, v := range src { dst[k] = v }\<close>. Ranging over a nil or empty map runs no
  iteration, so a nil \<open>dst\<close> panics only when \<open>src\<close> has an entry. The keys of a map are
  distinct, so the order of the iterations does not matter and the loop leaves in
  \<open>dst\<close> its old entries overridden by those of \<open>src\<close>.
\<close>

definition range_assign :: "mapref \<Rightarrow> mapref \<Rightarrow> heap \<Rightarrow> heap option" where
  "range_assign dst src h =
     (if deref h src = Map.empty then Some h
      else (case dst of None \<Rightarrow> None
            | Some a \<Rightarrow> Some (h(a := h a ++ deref h src))))"

section \<open>Run records\<close>

text \<open>\<open>core.Step\<close> and \<open>core.StepRun\<close>, as declared in \<open>ghx/core/step.go\<close>.\<close>

record Step =
  Step_ID :: string
  Step_If :: string
  Step_Name :: string
  Step_Uses :: string
  Step_Environment :: mapref
  Step_With :: mapref
  Step_Run :: string
  Step_Shell :: string
  Step_WorkingDirectory :: string
  Step_ContinueOnError :: bool
  Step_TimeoutMinutes :: int

record StepRun =
  StepRun_Step :: Step
  StepRun_Stage :: StepStage
  StepRun_Conclusion :: Conclusion
  StepRun_Outcome :: Conclusion
  StepRun_Outputs :: mapref
  StepRun_State :: mapref
  StepRun_Summary :: string
  StepRun_Environment :: mapref
  StepRun_Path :: "string list"

text \<open>
  Modelled from the spec: the declarations of \<open>core.Job\<close>, \<open>core.JobRun\<close>, \<open>core.Workflow\<close>
  and \<open>core.WorkflowRun\<close> are not among the sources. The fields are those the spec lists
  and \<open>execution.go\<close> reads. The matrix is a map that the code only replaces as a whole
  and measures with \<open>len\<close>, so it is kept by value, nil and empty alike.
\<close>

record Job =
  Job_ID :: string
  Job_Env :: mapref
  Job_Needs :: "string list"

record JobRun =
  JobRun_Job :: Job
  JobRun_Matrix :: strmap
  JobRun_Conclusion :: Conclusion
  JobRun_Outcome :: Conclusion
  JobRun_Outputs :: mapref
  JobRun_Steps :: "StepRun list"

record Workflow =
  Workflow_Name :: string
  Workflow_Path :: string
  Workflow_Env :: mapref

text \<open>\<open>Jobs\<close> is a map of \<open>JobRun\<close> values reached only through the run; \<open>None\<close> is nil.\<close>

record WorkflowRun =
  WorkflowRun_RunID :: string
  WorkflowRun_RunNumber :: string
  WorkflowRun_RunAttempt :: string
  WorkflowRun_RetentionDays :: string
  WorkflowRun_Workflow :: Workflow
  WorkflowRun_Jobs :: "(string \<rightharpoonup> JobRun) option"
  WorkflowRun_Conclusion :: Conclusion

text \<open>The zero value \<open>JobRun{}\<close>, which reading a missing key of \<open>Jobs\<close> yields.\<close>

definition zero_JobRun :: JobRun where
  "zero_JobRun =
     \<lparr>JobRun_Job = \<lparr>Job_ID = [], Job_Env = None, Job_Needs = []\<rparr>,
      JobRun_Matrix = Map.empty,
      JobRun_Conclusion = ConclusionZero,
      JobRun_Outcome = ConclusionZero,
      JobRun_Outputs = None,
      JobRun_Steps = []\<rparr>"

section \<open>Variable contexts\<close>

text \<open>
  Modelled from the spec: the context types of package \<open>ghx/context\<close> are not among the
  sources. \<open>GithubContext\<close> has the fields \<open>execution.go\<close> touches; \<open>StepContext\<close> and
  \<open>NeedContext\<close> have the fields the spec lists and \<open>execution.go\<close> assigns.
\<close>

record GithubContext =
  Github_Repository :: string
  Github_Ref :: string
  Github_SHA :: string
  Github_RunID :: string
  Github_RunNumber :: string
  Github_RunAttempt :: string
  Github_RetentionDays :: string
  Github_Workflow :: string
  Github_WorkflowRef :: string
  Github_WorkflowSHA :: string
  Github_Job :: string

record JobContext =
  JobContext_Status :: Conclusion

record StepContext =
  StepContext_State :: mapref
  StepContext_Summary :: string
  StepContext_Outputs :: mapref
  StepContext_Outcome :: Conclusion
  StepContext_Conclusion :: Conclusion

record NeedContext =
  NeedContext_Result :: Conclusion
  NeedContext_Outputs :: mapref

definition zero_StepContext :: StepContext where
  "zero_StepContext =
     \<lparr>StepContext_State = None, StepContext_Summary = [], StepContext_Outputs = None,
      StepContext_Outcome = ConclusionZero, StepContext_Conclusion = ConclusionZero\<rparr>"

section \<open>The file-writing collaborator\<close>

text \<open>
  The calls made to package \<open>fs\<close> are recorded in order. A path is the pair that
  \<open>filepath.Join\<close> is given (directory, file name). A report is the run result with the
  run, as the spec describes the values built by \<open>NewWorkflowRunReport\<close>,
  \<open>NewJobRunReport\<close> and \<open>NewStepRunReport\<close>. The run result is opaque: a type variable.
  An error returned by \<open>fs\<close> is logged and dropped by the callers, so it is not part of
  the model.
\<close>

type_synonym path = "string \<times> string"

datatype 'r report =
    WorkflowRunReport 'r WorkflowRun
  | JobRunReport 'r JobRun
  | StepRunReport 'r StepRun

datatype 'r fs_call =
    WriteJSONFile path "'r report"
  | WriteFile path string nat
  | CopyFile string path

section \<open>The execution context\<close>

text \<open>
  The \<open>Context\<close> of package \<open>ghx/context\<close> with the fields \<open>execution.go\<close> uses; the three
  \<open>Execution_\<close> fields are \<open>c.Execution.WorkflowRun\<close>, \<open>c.Execution.JobRun\<close> and
  \<open>c.Execution.StepRun\<close> (\<open>None\<close> is the nil pointer). \<open>Execution_CurrentAction\<close> is
  the pointer to the custom action, which the code only stores and clears; a name stands
  for the action. \<open>Ctx_Heap\<close> holds the string maps and \<open>Ctx_Disk\<close> the calls to package
  \<open>fs\<close> so far, oldest first.
\<close>

record 'r Context =
  Execution_WorkflowRun :: "WorkflowRun option"
  Execution_JobRun :: "JobRun option"
  Execution_StepRun :: "StepRun option"
  Execution_CurrentAction :: "string option"
  Ctx_Github :: GithubContext
  Ctx_Env :: mapref
  Ctx_Matrix :: strmap
  Ctx_Job :: JobContext
  Ctx_Steps :: "(string \<rightharpoonup> StepContext) option"
  Ctx_Needs :: "(string \<rightharpoonup> NeedContext) option"
  Ctx_Heap :: heap
  Ctx_Disk :: "'r fs_call list"

text \<open>
  What a call leaves behind: it returned (nil, where it returns an error) in a state, it
  returned the error \<open>errors.New msg\<close> in a state, or it panicked (a nil pointer was
  dereferenced or a nil map written).
\<close>

datatype 'a result = Done 'a | Failed string 'a | Panic

fun and_then :: "'a result \<Rightarrow> ('a \<Rightarrow> 'a result) \<Rightarrow> 'a result" where
  "and_then (Done c) f = f c"
| "and_then (Failed e c) f = Failed e c"
| "and_then Panic f = Panic"

text \<open>The environment an expression sees: the contents of the map \<open>c.Env\<close> refers to.\<close>

definition resolved_Env :: "'r Context \<Rightarrow> strmap" where
  "resolved_Env c = deref (Ctx_Heap c) (Ctx_Env c)"

subsection \<open>Workflow level\<close>

text \<open>
  \<open>SetWorkflow\<close>. \<open>syncWithEnvValues\<close> is not among the sources; it is given the github
  context alone, so it is a parameter acting on that field.
\<close>

definition SetWorkflow ::
  "(GithubContext \<Rightarrow> GithubContext) \<Rightarrow> WorkflowRun \<Rightarrow> 'r Context \<Rightarrow> 'r Context result" where
  "SetWorkflow syncWithEnvValues wr c =
     (let gh = Ctx_Github c;
          gh' = gh\<lparr>Github_RunID := WorkflowRun_RunID wr,
                   Github_RunNumber := WorkflowRun_RunNumber wr,
                   Github_RunAttempt := WorkflowRun_RunAttempt wr,
                   Github_RetentionDays := WorkflowRun_RetentionDays wr,
                   Github_Workflow := Workflow_Name (WorkflowRun_Workflow wr),
                   Github_WorkflowRef :=
                     Github_Repository gh @ ''/'' @ Workflow_Path (WorkflowRun_Workflow wr)
                       @ ''@'' @ Github_Ref gh,
                   Github_WorkflowSHA := Github_SHA gh\<rparr>
      in Done (c\<lparr>Execution_WorkflowRun := Some (wr\<lparr>WorkflowRun_Conclusion := ConclusionSuccess\<rparr>),
                 Execution_JobRun := None,
                 Execution_StepRun := None,
                 Execution_CurrentAction := None,
                 Ctx_Github := syncWithEnvValues gh',
                 Ctx_Env := Workflow_Env (WorkflowRun_Workflow wr)\<rparr>))"

text \<open>\<open>UnsetWorkflow\<close>; \<open>GetWorkflowRunPath\<close> is the external path resolution.\<close>

definition UnsetWorkflow :: "('r Context \<Rightarrow> string) \<Rightarrow> 'r \<Rightarrow> 'r Context \<Rightarrow> 'r Context result" where
  "UnsetWorkflow GetWorkflowRunPath result c =
     (case Execution_WorkflowRun c of
        None \<Rightarrow> Panic
      | Some wr \<Rightarrow>
          (let dir = GetWorkflowRunPath c
           in Done (c\<lparr>Ctx_Disk := Ctx_Disk c @
                 [WriteJSONFile (dir, ''workflow_run.json'') (WorkflowRunReport result wr),
                  CopyFile (Workflow_Path (WorkflowRun_Workflow wr)) (dir, ''workflow.yaml'')]\<rparr>)))"

subsection \<open>Job level\<close>

text \<open>
  The loop of \<open>SetJob\<close> over \<open>jr.Job.Needs\<close>: each needed ID is looked up in the job map (a
  missing key reads as the zero \<open>JobRun\<close>) and entered under the ID the record found
  carries, with the record's conclusion and its \<open>Outputs\<close> reference.
\<close>

definition lookup_job :: "(string \<rightharpoonup> JobRun) \<Rightarrow> string \<Rightarrow> JobRun" where
  "lookup_job jobs need = (case jobs need of None \<Rightarrow> zero_JobRun | Some j \<Rightarrow> j)"

fun load_needs ::
  "(string \<rightharpoonup> JobRun) \<Rightarrow> string list \<Rightarrow> (string \<rightharpoonup> NeedContext) \<Rightarrow> (string \<rightharpoonup> NeedContext)" where
  "load_needs jobs [] needs = needs"
| "load_needs jobs (need # rest) needs =
     (let j = lookup_job jobs need
      in load_needs jobs rest
           (needs(Job_ID (JobRun_Job j) \<mapsto>
              \<lparr>NeedContext_Result = JobRun_Conclusion j,
               NeedContext_Outputs = JobRun_Outputs j\<rparr>)))"

definition SetJob :: "JobRun \<Rightarrow> 'r Context \<Rightarrow> 'r Context result" where
  "SetJob jr c =
     (case Execution_WorkflowRun c of
        None \<Rightarrow> Failed ''no workflow is set'' c
      | Some wr \<Rightarrow>
          (case WorkflowRun_Jobs wr of
             None \<Rightarrow> Panic
           | Some jobs \<Rightarrow>
               (let jobs' = jobs(Job_ID (JobRun_Job jr) \<mapsto> jr)
                in (case range_assign (Ctx_Env c) (Job_Env (JobRun_Job jr)) (Ctx_Heap c) of
                      None \<Rightarrow> Panic
                    | Some h \<Rightarrow>
                        Done (c\<lparr>Execution_JobRun := Some jr,
                                Execution_WorkflowRun := Some (wr\<lparr>WorkflowRun_Jobs := Some jobs'\<rparr>),
                                Ctx_Github := (Ctx_Github c)\<lparr>Github_Job := Job_ID (JobRun_Job jr)\<rparr>,
                                Ctx_Heap := h,
                                Ctx_Matrix :=
                                  (if JobRun_Matrix jr \<noteq> Map.empty then JobRun_Matrix jr
                                   else Ctx_Matrix c),
                                Ctx_Job := \<lparr>JobContext_Status = WorkflowRun_Conclusion wr\<rparr>,
                                Ctx_Steps := Some Map.empty,
                                Ctx_Needs :=
                                  Some (if Job_Needs (JobRun_Job jr) \<noteq> []
                                        then load_needs jobs' (Job_Needs (JobRun_Job jr)) Map.empty
                                        else Map.empty)\<rparr>)))))"

definition UnsetJob :: "('r Context \<Rightarrow> string) \<Rightarrow> 'r \<Rightarrow> 'r Context \<Rightarrow> 'r Context result" where
  "UnsetJob GetJobRunPath result c =
     (case Execution_JobRun c of
        None \<Rightarrow> Panic
      | Some jr \<Rightarrow>
          (case Execution_WorkflowRun c of
             None \<Rightarrow> Panic
           | Some wr \<Rightarrow>
               (case WorkflowRun_Jobs wr of
                  None \<Rightarrow> Panic
                | Some jobs \<Rightarrow>
                    (let wr1 = wr\<lparr>WorkflowRun_Jobs := Some (jobs(Job_ID (JobRun_Job jr) \<mapsto> jr))\<rparr>;
                         wr2 = (if WorkflowRun_Conclusion wr1 = ConclusionSuccess
                                   \<and> JobRun_Conclusion jr \<noteq> ConclusionSuccess
                                then wr1\<lparr>WorkflowRun_Conclusion := JobRun_Conclusion jr\<rparr>
                                else wr1);
                         c1 = c\<lparr>Execution_WorkflowRun := Some wr2,
                                Ctx_Github := (Ctx_Github c)\<lparr>Github_Job := []\<rparr>,
                                Ctx_Env := Workflow_Env (WorkflowRun_Workflow wr2),
                                Ctx_Matrix := Map.empty\<rparr>;
                         dir = GetJobRunPath c1;
                         c2 = c1\<lparr>Ctx_Disk := Ctx_Disk c1 @
                                 [WriteJSONFile (dir, ''job_run.json'') (JobRunReport result jr)]\<rparr>
                     in Done (c2\<lparr>Execution_JobRun := None\<rparr>)))))"

definition SetJobResults ::
  "Conclusion \<Rightarrow> Conclusion \<Rightarrow> mapref \<Rightarrow> 'r Context \<Rightarrow> 'r Context result" where
  "SetJobResults conclusion outcome outputs c =
     (case Execution_JobRun c of
        None \<Rightarrow> Failed ''no job is set'' c
      | Some jr \<Rightarrow>
          Done (c\<lparr>Execution_JobRun :=
                    Some (jr\<lparr>JobRun_Conclusion := conclusion,
                             JobRun_Outcome := outcome,
                             JobRun_Outputs := outputs\<rparr>),
                  Ctx_Job := (Ctx_Job c)\<lparr>JobContext_Status := conclusion\<rparr>\<rparr>))"

subsection \<open>Step level\<close>

definition SetStep :: "StepRun \<Rightarrow> 'r Context \<Rightarrow> 'r Context result" where
  "SetStep sr c =
     (case Execution_JobRun c of
        None \<Rightarrow> Failed ''no job is set'' c
      | Some jr \<Rightarrow>
          (case range_assign (Ctx_Env c) (Step_Environment (StepRun_Step sr)) (Ctx_Heap c) of
             None \<Rightarrow> Panic
           | Some h \<Rightarrow> Done (c\<lparr>Execution_StepRun := Some sr, Ctx_Heap := h\<rparr>)))"

text \<open>
  The part of \<open>UnsetStep\<close> under \<open>if c.Execution.StepRun.Stage == core.StepStageMain\<close>:
  the step report, and the summary when it is not empty. \<open>GetStepRunPath\<close> is the
  external path resolution.
\<close>

definition export_step ::
  "('r Context \<Rightarrow> string) \<Rightarrow> 'r \<Rightarrow> StepRun \<Rightarrow> 'r Context \<Rightarrow> 'r Context" where
  "export_step GetStepRunPath result sr c =
     (let dir = GetStepRunPath c;
          c1 = c\<lparr>Ctx_Disk := Ctx_Disk c @
                 [WriteJSONFile (dir, ''step_run.json'') (StepRunReport result sr)]\<rparr>
      in if StepRun_Summary sr \<noteq> []
         then c1\<lparr>Ctx_Disk := Ctx_Disk c1 @ [WriteFile (dir, ''summary.md'') (StepRun_Summary sr) 384]\<rparr>
         else c1)"

definition UnsetStep :: "('r Context \<Rightarrow> string) \<Rightarrow> 'r \<Rightarrow> 'r Context \<Rightarrow> 'r Context result" where
  "UnsetStep GetStepRunPath result c =
     (case Execution_StepRun c of
        None \<Rightarrow> Done c
      | Some sr \<Rightarrow>
          (case Execution_WorkflowRun c of
             None \<Rightarrow> Panic
           | Some wr \<Rightarrow>
               (case Execution_JobRun c of
                  None \<Rightarrow> Panic
                | Some jr \<Rightarrow>
                    (case range_assign (Workflow_Env (WorkflowRun_Workflow wr))
                            (Job_Env (JobRun_Job jr)) (Ctx_Heap c) of
                       None \<Rightarrow> Panic
                     | Some h \<Rightarrow>
                         (case Ctx_Steps c of
                            None \<Rightarrow> Panic
                          | Some steps \<Rightarrow>
                              (let sc = (case steps (Step_ID (StepRun_Step sr)) of
                                           None \<Rightarrow> zero_StepContext
                                         | Some x \<Rightarrow> x);
                                   sc' = sc\<lparr>StepContext_State := StepRun_State sr,
                                            StepContext_Summary := StepRun_Summary sr,
                                            StepContext_Outputs := StepRun_Outputs sr,
                                            StepContext_Outcome := StepRun_Outcome sr,
                                            StepContext_Conclusion := StepRun_Conclusion sr\<rparr>;
                                   c1 = c\<lparr>Ctx_Env := Workflow_Env (WorkflowRun_Workflow wr),
                                          Ctx_Heap := h,
                                          Execution_JobRun :=
                                            Some (jr\<lparr>JobRun_Steps := JobRun_Steps jr @ [sr]\<rparr>),
                                          Ctx_Steps := Some (steps(Step_ID (StepRun_Step sr) \<mapsto> sc'))\<rparr>;
                                   c2 = (if StepRun_Stage sr = StepStageMain
                                         then export_step GetStepRunPath result sr c1
                                         else c1)
                               in Done (c2\<lparr>Execution_StepRun := None\<rparr>)))))))"

definition SetStepResults :: "Conclusion \<Rightarrow> Conclusion \<Rightarrow> 'r Context \<Rightarrow> 'r Context result" where
  "SetStepResults conclusion outcome c =
     (case Execution_StepRun c of
        None \<Rightarrow> Failed ''no step is set'' c
      | Some sr \<Rightarrow>
          Done (c\<lparr>Execution_StepRun :=
                    Some (sr\<lparr>StepRun_Conclusion := conclusion, StepRun_Outcome := outcome\<rparr>)\<rparr>))"

definition SetStepOutput :: "string \<Rightarrow> string \<Rightarrow> 'r Context \<Rightarrow> 'r Context result" where
  "SetStepOutput key val c =
     (case Execution_StepRun c of
        None \<Rightarrow> Failed ''no step is set'' c
      | Some sr \<Rightarrow>
          (case mapassign (StepRun_Outputs sr) key val (Ctx_Heap c) of
             None \<Rightarrow> Panic
           | Some h \<Rightarrow> Done (c\<lparr>Ctx_Heap := h\<rparr>)))"

definition SetStepSummary :: "string \<Rightarrow> 'r Context \<Rightarrow> 'r Context result" where
  "SetStepSummary summary c =
     (case Execution_StepRun c of
        None \<Rightarrow> Failed ''no step is set'' c
      | Some sr \<Rightarrow> Done (c\<lparr>Execution_StepRun := Some (sr\<lparr>StepRun_Summary := summary\<rparr>)\<rparr>))"

definition SetStepState :: "string \<Rightarrow> string \<Rightarrow> 'r Context \<Rightarrow> 'r Context result" where
  "SetStepState key val c =
     (case Execution_StepRun c of
        None \<Rightarrow> Failed ''no step is set'' c
      | Some sr \<Rightarrow>
          (case mapassign (StepRun_State sr) key val (Ctx_Heap c) of
             None \<Rightarrow> Panic
           | Some h \<Rightarrow> Done (c\<lparr>Ctx_Heap := h\<rparr>)))"

definition AddStepPath :: "string \<Rightarrow> 'r Context \<Rightarrow> 'r Context result" where
  "AddStepPath p c =
     (case Execution_StepRun c of
        None \<Rightarrow> Failed ''no step is set'' c
      | Some sr \<Rightarrow> Done (c\<lparr>Execution_StepRun := Some (sr\<lparr>StepRun_Path := StepRun_Path sr @ [p]\<rparr>)\<rparr>))"

definition SetStepEnv :: "string \<Rightarrow> string \<Rightarrow> 'r Context \<Rightarrow> 'r Context result" where
  "SetStepEnv key val c =
     (case Execution_StepRun c of
        None \<Rightarrow> Failed ''no step is set'' c
      | Some sr \<Rightarrow>
          (case mapassign (StepRun_Environment sr) key val (Ctx_Heap c) of
             None \<Rightarrow> Panic
           | Some h \<Rightarrow> Done (c\<lparr>Ctx_Heap := h\<rparr>)))"

definition SetAction :: "string option \<Rightarrow> 'r Context \<Rightarrow> 'r Context" where
  "SetAction action c = c\<lparr>Execution_CurrentAction := action\<rparr>"

definition UnsetAction :: "'r Context \<Rightarrow> 'r Context" where
  "UnsetAction c = c\<lparr>Execution_CurrentAction := None\<rparr>"

section \<open>The expression variable providers\<close>

text \<open>
  \<open>GetVariable\<close> returns an \<open>interface{}\<close>: one of the context fields, a fresh empty
  \<open>map[string]string{}\<close>, or a float constant. \<open>math.Inf\<close> and \<open>math.NaN\<close> yield the IEEE
  values named here; \<open>math.Inf sign\<close> is positive infinity for \<open>sign >= 0\<close>.
\<close>

datatype float64 = PosInf | NegInf | NaN

definition math_Inf :: "int \<Rightarrow> float64" where
  "math_Inf sign = (if sign \<ge> 0 then PosInf else NegInf)"

definition math_NaN :: float64 where
  "math_NaN = NaN"

text \<open>
  Modelled from the spec: \<open>RunnerContext\<close>, \<open>SecretsContext\<close> and \<open>InputsContext\<close> are
  attribute bags whose declarations are not among the sources. The runner fields are
  those \<open>NewExprContext\<close> fills; secrets and inputs are string maps, kept by value.
\<close>

record RunnerContext =
  Runner_Name :: string
  Runner_OS :: string
  Runner_Arch :: string
  Runner_Temp :: string
  Runner_ToolCache :: string
  Runner_Debug :: string

record SecretsContext =
  Secrets_Data :: strmap

datatype variable =
    VGithub GithubContext
  | VRunner RunnerContext
  | VStringMap strmap
  | VJob JobContext
  | VSteps "(string \<rightharpoonup> StepContext) option"
  | VSecrets SecretsContext
  | VNeeds "(string \<rightharpoonup> NeedContext) option"
  | VFloat float64

text \<open>
  \<open>gctx.Context\<close> of \<open>internal/gctx\<close>, with the fields its \<open>GetVariable\<close> reads
  (\<open>isContainer\<close>, \<open>debug\<close>, \<open>path\<close>, \<open>Context\<close>, \<open>Docker\<close>, \<open>Repo\<close> and \<open>Execution\<close> are
  not read by it).
\<close>

record gctx_Context =
  gctx_Runner :: RunnerContext
  gctx_Github :: GithubContext
  gctx_Secrets :: SecretsContext
  gctx_Inputs :: strmap
  gctx_Job :: JobContext
  gctx_Steps :: "(string \<rightharpoonup> StepContext) option"
  gctx_Needs :: "(string \<rightharpoonup> NeedContext) option"
  gctx_Matrix :: strmap

text \<open>The result is the pair Go returns: the value or nil, and the error or nil.\<close>

definition gctx_GetVariable :: "gctx_Context \<Rightarrow> string \<Rightarrow> variable option \<times> string option" where
  "gctx_GetVariable c name =
     (if name = ''github'' then (Some (VGithub (gctx_Github c)), None)
      else if name = ''runner'' then (Some (VRunner (gctx_Runner c)), None)
      else if name = ''env'' then (Some (VStringMap Map.empty), None)
      else if name = ''vars'' then (Some (VStringMap Map.empty), None)
      else if name = ''job'' then (Some (VJob (gctx_Job c)), None)
      else if name = ''steps'' then (Some (VSteps (gctx_Steps c)), None)
      else if name = ''secrets'' then (Some (VStringMap (Secrets_Data (gctx_Secrets c))), None)
      else if name = ''strategy'' then (Some (VStringMap Map.empty), None)
      else if name = ''matrix'' then (Some (VStringMap (gctx_Matrix c)), None)
      else if name = ''needs'' then (Some (VNeeds (gctx_Needs c)), None)
      else if name = ''inputs'' then (Some (VStringMap (gctx_Inputs c)), None)
      else if name = ''infinity'' then (Some (VFloat (math_Inf 1)), None)
      else if name = ''nan'' then (Some (VFloat math_NaN), None)
      else (None, Some (''unknown variable: '' @ name)))"

text \<open>\<open>ExprContext\<close> of package \<open>ghx\<close>, as declared beside its \<open>GetVariable\<close>.\<close>

record ExprContext =
  Expr_Github :: GithubContext
  Expr_Runner :: RunnerContext
  Expr_Job :: JobContext
  Expr_Steps :: "(string \<rightharpoonup> StepContext) option"
  Expr_Secrets :: SecretsContext
  Expr_Inputs :: strmap

definition ExprContext_GetVariable :: "ExprContext \<Rightarrow> string \<Rightarrow> variable option \<times> string option" where
  "ExprContext_GetVariable c name =
     (if name = ''github'' then (Some (VGithub (Expr_Github c)), None)
      else if name = ''runner'' then (Some (VRunner (Expr_Runner c)), None)
      else if name = ''env'' then (Some (VStringMap Map.empty), None)
      else if name = ''vars'' then (Some (VStringMap Map.empty), None)
      else if name = ''job'' then (Some (VJob (Expr_Job c)), None)
      else if name = ''steps'' then (Some (VSteps (Expr_Steps c)), None)
      else if name = ''secrets'' then (Some (VSecrets (Expr_Secrets c)), None)
      else if name = ''strategy'' then (Some (VStringMap Map.empty), None)
      else if name = ''matrix'' then (Some (VStringMap Map.empty), None)
      else if name = ''needs'' then (Some (VStringMap Map.empty), None)
      else if name = ''inputs'' then (Some (VStringMap (Expr_Inputs c)), None)
      else if name = ''infinity'' then (Some (VFloat (math_Inf 1)), None)
      else if name = ''nan'' then (Some (VFloat math_NaN), None)
      else (None, Some (''unknown variable: '' @ name)))"

section \<open>Observations and call sequences\<close>

text \<open>The state a call returned nil in, if it did.\<close>

fun returned :: "'a result \<Rightarrow> 'a option" where
  "returned (Done c) = Some c"
| "returned (Failed e c) = None"
| "returned Panic = None"

text \<open>\<open>c.Execution.WorkflowRun.Conclusion\<close>, when a workflow run is installed.\<close>

definition workflow_Conclusion :: "'r Context \<Rightarrow> Conclusion option" where
  "workflow_Conclusion c = map_option WorkflowRun_Conclusion (Execution_WorkflowRun c)"

text \<open>
  What an expression reads in \<open>needs.<id>\<close>: the result stored in the entry and the
  present contents of the map its \<open>Outputs\<close> refers to.
\<close>

definition need_entry :: "'r Context \<Rightarrow> string \<Rightarrow> (Conclusion \<times> strmap) option" where
  "need_entry c ident =
     (case Ctx_Needs c of
        None \<Rightarrow> None
      | Some needs \<Rightarrow>
          map_option
            (\<lambda>n. (NeedContext_Result n, deref (Ctx_Heap c) (NeedContext_Outputs n)))
            (needs ident))"

text \<open>
  The calls an orchestrator makes between \<open>SetWorkflow\<close> and \<open>UnsetWorkflow\<close>, and a
  sequence of them run in order; the sequence stops at the first call that returns an
  error or panics. \<open>PJ\<close> and \<open>PS\<close> are \<open>GetJobRunPath\<close> and \<open>GetStepRunPath\<close>.
\<close>

datatype 'r call =
    CallSetJob JobRun
  | CallUnsetJob 'r
  | CallSetJobResults Conclusion Conclusion mapref
  | CallSetStep StepRun
  | CallUnsetStep 'r
  | CallSetStepResults Conclusion Conclusion
  | CallSetStepOutput string string
  | CallSetStepSummary string
  | CallSetStepState string string
  | CallAddStepPath string
  | CallSetStepEnv string string

fun apply_call ::
  "('r Context \<Rightarrow> string) \<Rightarrow> ('r Context \<Rightarrow> string) \<Rightarrow> 'r call \<Rightarrow> 'r Context
     \<Rightarrow> 'r Context result" where
  "apply_call PJ PS (CallSetJob jr) c = SetJob jr c"
| "apply_call PJ PS (CallUnsetJob r) c = UnsetJob PJ r c"
| "apply_call PJ PS (CallSetJobResults cn oc outs) c = SetJobResults cn oc outs c"
| "apply_call PJ PS (CallSetStep sr) c = SetStep sr c"
| "apply_call PJ PS (CallUnsetStep r) c = UnsetStep PS r c"
| "apply_call PJ PS (CallSetStepResults cn oc) c = SetStepResults cn oc c"
| "apply_call PJ PS (CallSetStepOutput k v) c = SetStepOutput k v c"
| "apply_call PJ PS (CallSetStepSummary s) c = SetStepSummary s c"
| "apply_call PJ PS (CallSetStepState k v) c = SetStepState k v c"
| "apply_call PJ PS (CallAddStepPath p) c = AddStepPath p c"
| "apply_call PJ PS (CallSetStepEnv k v) c = SetStepEnv k v c"

fun run_calls ::
  "('r Context \<Rightarrow> string) \<Rightarrow> ('r Context \<Rightarrow> string) \<Rightarrow> 'r call list \<Rightarrow> 'r Context
     \<Rightarrow> 'r Context result" where
  "run_calls PJ PS [] c = Done c"
| "run_calls PJ PS (x # xs) c = and_then (apply_call PJ PS x c) (run_calls PJ PS xs)"

text \<open>
  Changes made to the record of a retired job from outside the context, as Go allows
  them: \<open>overwrite_job\<close> stores another record under the job's key (which is how a new
  conclusion or another outputs map gets into a record held by value in \<open>Jobs\<close>), and
  \<open>write_job_output\<close> is \<open>c.Execution.WorkflowRun.Jobs[id].Outputs[k] = v\<close>, a write into
  the map object the record refers to.
\<close>

definition overwrite_job :: "string \<Rightarrow> JobRun \<Rightarrow> 'r Context \<Rightarrow> 'r Context result" where
  "overwrite_job ident j c =
     (case Execution_WorkflowRun c of
        None \<Rightarrow> Panic
      | Some wr \<Rightarrow>
          (case WorkflowRun_Jobs wr of
             None \<Rightarrow> Panic
           | Some jobs \<Rightarrow>
               Done (c\<lparr>Execution_WorkflowRun :=
                         Some (wr\<lparr>WorkflowRun_Jobs := Some (jobs(ident \<mapsto> j))\<rparr>)\<rparr>)))"

definition write_job_output :: "string \<Rightarrow> string \<Rightarrow> string \<Rightarrow> 'r Context \<Rightarrow> 'r Context result" where
  "write_job_output ident k v c =
     (case Execution_WorkflowRun c of
        None \<Rightarrow> Panic
      | Some wr \<Rightarrow>
          (case WorkflowRun_Jobs wr of
             None \<Rightarrow> (case mapassign None k v (Ctx_Heap c) of
                         None \<Rightarrow> Panic | Some h \<Rightarrow> Done (c\<lparr>Ctx_Heap := h\<rparr>))
           | Some jobs \<Rightarrow>
               (case mapassign (JobRun_Outputs (lookup_job jobs ident)) k v (Ctx_Heap c) of
                  None \<Rightarrow> Panic
                | Some h \<Rightarrow> Done (c\<lparr>Ctx_Heap := h\<rparr>))))"

section \<open>Concrete runs\<close>

text \<open>The zero values of the records, from which the concrete runs below are built.\<close>

definition zero_Step :: Step where
  "zero_Step =
     \<lparr>Step_ID = [], Step_If = [], Step_Name = [], Step_Uses = [], Step_Environment = None,
      Step_With = None, Step_Run = [], Step_Shell = [], Step_WorkingDirectory = [],
      Step_ContinueOnError = False, Step_TimeoutMinutes = 0\<rparr>"

definition zero_StepRun :: StepRun where
  "zero_StepRun =
     \<lparr>StepRun_Step = zero_Step, StepRun_Stage = StepStageSetup,
      StepRun_Conclusion = ConclusionZero, StepRun_Outcome = ConclusionZero,
      StepRun_Outputs = None, StepRun_State = None, StepRun_Summary = [],
      StepRun_Environment = None, StepRun_Path = []\<rparr>"

definition zero_GithubContext :: GithubContext where
  "zero_GithubContext =
     \<lparr>Github_Repository = [], Github_Ref = [], Github_SHA = [], Github_RunID = [],
      Github_RunNumber = [], Github_RunAttempt = [], Github_RetentionDays = [],
      Github_Workflow = [], Github_WorkflowRef = [], Github_WorkflowSHA = [],
      Github_Job = []\<rparr>"

text \<open>A context before any call, over a heap \<open>h\<close> of maps the caller has built.\<close>

definition new_Context :: "heap \<Rightarrow> unit Context" where
  "new_Context h =
     \<lparr>Execution_WorkflowRun = None, Execution_JobRun = None, Execution_StepRun = None,
      Execution_CurrentAction = None, Ctx_Github = zero_GithubContext, Ctx_Env = None,
      Ctx_Matrix = Map.empty, Ctx_Job = \<lparr>JobContext_Status = ConclusionZero\<rparr>,
      Ctx_Steps = None, Ctx_Needs = None, Ctx_Heap = h, Ctx_Disk = []\<rparr>"

text \<open>A workflow run with no job yet, whose workflow declares the env at \<open>env\<close>.\<close>

definition a_WorkflowRun :: "mapref \<Rightarrow> WorkflowRun" where
  "a_WorkflowRun env =
     \<lparr>WorkflowRun_RunID = ''1'', WorkflowRun_RunNumber = ''1'', WorkflowRun_RunAttempt = ''1'',
      WorkflowRun_RetentionDays = ''0'',
      WorkflowRun_Workflow =
        \<lparr>Workflow_Name = ''ci'', Workflow_Path = ''ci.yaml'', Workflow_Env = env\<rparr>,
      WorkflowRun_Jobs = Some Map.empty,
      WorkflowRun_Conclusion = ConclusionZero\<rparr>"

text \<open>A job run for the job \<open>ident\<close> with declared env \<open>env\<close> and needed jobs \<open>needs\<close>.\<close>

definition a_JobRun :: "string \<Rightarrow> mapref \<Rightarrow> string list \<Rightarrow> JobRun" where
  "a_JobRun ident env needs =
     zero_JobRun\<lparr>JobRun_Job := \<lparr>Job_ID = ident, Job_Env = env, Job_Needs = needs\<rparr>\<rparr>"

text \<open>A step run for the step \<open>ident\<close> with declared env \<open>env\<close>, at stage \<open>stage\<close>.\<close>

definition a_StepRun :: "string \<Rightarrow> mapref \<Rightarrow> StepStage \<Rightarrow> StepRun" where
  "a_StepRun ident env stage =
     zero_StepRun\<lparr>StepRun_Step := zero_Step\<lparr>Step_ID := ident, Step_Environment := env\<rparr>,
                  StepRun_Stage := stage\<rparr>"

text \<open>
  The heap of the environment-layering run: the workflow declares \<open>{A: 1}\<close> (map 0), the
  job \<open>{B: 2}\<close> (map 1), the step \<open>{A: 3}\<close> (map 2). \<open>env_run_during\<close> is the state while
  the step is active, \<open>env_run_after\<close> the state after \<open>UnsetStep\<close>.
\<close>

definition env_heap :: heap where
  "env_heap = (\<lambda>a. Map.empty)(0 := [''A'' \<mapsto> ''1''], 1 := [''B'' \<mapsto> ''2''], 2 := [''A'' \<mapsto> ''3''])"

definition env_run_during :: "unit Context result" where
  "env_run_during =
     and_then (and_then (SetWorkflow (\<lambda>g. g) (a_WorkflowRun (Some 0)) (new_Context env_heap))
                 (SetJob (a_JobRun ''build'' (Some 1) [])))
       (SetStep (a_StepRun ''compile'' (Some 2) StepStageMain))"

definition env_run_after :: "unit Context result" where
  "env_run_after = and_then env_run_during (UnsetStep (\<lambda>c. ''steps/compile'') ())"

text \<open>
  A step retiring at stage Pre: \<open>pre_run_before\<close> is the state with the step active,
  \<open>pre_run_after\<close> the state after \<open>UnsetStep\<close>.
\<close>

definition pre_run_before :: "unit Context result" where
  "pre_run_before =
     and_then (and_then (SetWorkflow (\<lambda>g. g) (a_WorkflowRun None) (new_Context (\<lambda>a. Map.empty)))
                 (SetJob (a_JobRun ''build'' None [])))
       (SetStep (a_StepRun ''compile'' None StepStagePre))"

definition pre_run_after :: "unit Context result" where
  "pre_run_after = and_then pre_run_before (UnsetStep (\<lambda>c. ''steps/compile'') ())"

text \<open>
  The needs run: job \<open>J1\<close> retires with conclusion Success and the outputs map \<open>{x: v}\<close>
  (map 0), then job \<open>J\<close>, which needs \<open>J1\<close>, is activated. \<open>needs_run_mutated\<close> then writes
  \<open>x = w\<close> into the outputs of the record of \<open>J1\<close>.
\<close>

definition needs_heap :: heap where
  "needs_heap = (\<lambda>a. Map.empty)(0 := [''x'' \<mapsto> ''v''])"

definition needs_J1_retired :: "unit Context result" where
  "needs_J1_retired =
     and_then (SetWorkflow (\<lambda>g. g) (a_WorkflowRun None) (new_Context needs_heap))
       (run_calls (\<lambda>c. ''jobs'') (\<lambda>c. ''steps'')
          [CallSetJob (a_JobRun ''J1'' None []),
           CallSetJobResults ConclusionSuccess ConclusionSuccess (Some 0),
           CallUnsetJob ()])"

definition needs_run :: "unit Context result" where
  "needs_run = and_then needs_J1_retired (SetJob (a_JobRun ''J'' None [''J1'']))"

definition needs_run_mutated :: "unit Context result" where
  "needs_run_mutated = and_then needs_run (write_job_output ''J1'' ''x'' ''w'')"

text \<open>
  A job that needs \<open>ghost\<close>, a job the workflow run has no record of, activated in a
  workflow run without jobs.
\<close>

definition ghost_workflow_set :: "unit Context result" where
  "ghost_workflow_set =
     SetWorkflow (\<lambda>g. g) (a_WorkflowRun None) (new_Context (\<lambda>a. Map.empty))"

definition ghost_run :: "unit Context result" where
  "ghost_run = and_then ghost_workflow_set (SetJob (a_JobRun ''J'' None [''ghost'']))"

text \<open>The stage of the active step run, and the entry the zero \<open>JobRun\<close> leaves in \<open>Needs\<close>.\<close>

definition active_Stage :: "'r Context \<Rightarrow> StepStage option" where
  "active_Stage c = map_option StepRun_Stage (Execution_StepRun c)"

definition zero_NeedContext :: NeedContext where
  "zero_NeedContext = \<lparr>NeedContext_Result = ConclusionZero, NeedContext_Outputs = None\<rparr>"

text \<open>The step context \<open>UnsetStep\<close> stores for a retiring step run.\<close>

definition StepContext_of :: "StepRun \<Rightarrow> StepContext" where
  "StepContext_of sr =
     \<lparr>StepContext_State = StepRun_State sr, StepContext_Summary = StepRun_Summary sr,
      StepContext_Outputs = StepRun_Outputs sr, StepContext_Outcome = StepRun_Outcome sr,
      StepContext_Conclusion = StepRun_Conclusion sr\<rparr>"

text \<open>The calls to package \<open>fs\<close> that retiring the step run \<open>sr\<close> makes, given the directory.\<close>

definition step_files :: "string \<Rightarrow> 'r \<Rightarrow> StepRun \<Rightarrow> 'r fs_call list" where
  "step_files dir result sr =
     (if StepRun_Stage sr = StepStageMain
      then WriteJSONFile (dir, ''step_run.json'') (StepRunReport result sr) #
           (if StepRun_Summary sr \<noteq> [] then [WriteFile (dir, ''summary.md'') (StepRun_Summary sr) 384]
            else [])
      else [])"

text \<open>
  A step with summary \<open>done\<close> retiring at stage Main: \<open>main_run_before\<close> is the state with
  the step active.
\<close>

definition main_run_before :: "unit Context result" where
  "main_run_before =
     and_then (and_then (and_then
         (SetWorkflow (\<lambda>g. g) (a_WorkflowRun None) (new_Context (\<lambda>a. Map.empty)))
         (SetJob (a_JobRun ''build'' None [])))
       (SetStep (a_StepRun ''compile'' None StepStageMain)))
     (SetStepSummary ''done'')"

text \<open>
  The first-failure run: job \<open>J1\<close> is active with conclusion Failure in
  \<open>ff_J1_active\<close>; after it retires the calls \<open>ff_between\<close> activate job \<open>J2\<close> and set
  its conclusion to Cancelled.
\<close>

definition ff_J1_active :: "unit Context result" where
  "ff_J1_active =
     and_then (SetWorkflow (\<lambda>g. g) (a_WorkflowRun None) (new_Context (\<lambda>a. Map.empty)))
       (run_calls (\<lambda>c. ''jobs'') (\<lambda>c. ''steps'')
          [CallSetJob (a_JobRun ''J1'' None []),
           CallSetJobResults ConclusionFailure ConclusionFailure None])"

definition ff_between :: "unit call list" where
  "ff_between =
     [CallSetJob (a_JobRun ''J2'' None []),
      CallSetJobResults ConclusionCancelled ConclusionCancelled None]"

definition ff_J1_retired :: "unit Context result" where
  "ff_J1_retired = and_then ff_J1_active (UnsetJob (\<lambda>c. ''jobs'') ())"

definition ff_J2_active :: "unit Context result" where
  "ff_J2_active = and_then ff_J1_retired (run_calls (\<lambda>c. ''jobs'') (\<lambda>c. ''steps'') ff_between)"

definition ff_J2_retired :: "unit Context result" where
  "ff_J2_retired = and_then ff_J2_active (UnsetJob (\<lambda>c. ''jobs'') ())"

text \<open>Provider contexts with every field at its zero value.\<close>

definition zero_RunnerContext :: RunnerContext where
  "zero_RunnerContext =
     \<lparr>Runner_Name = [], Runner_OS = [], Runner_Arch = [], Runner_Temp = [],
      Runner_ToolCache = [], Runner_Debug = []\<rparr>"

definition zero_gctx_Context :: gctx_Context where
  "zero_gctx_Context =
     \<lparr>gctx_Runner = zero_RunnerContext, gctx_Github = zero_GithubContext,
      gctx_Secrets = \<lparr>Secrets_Data = Map.empty\<rparr>, gctx_Inputs = Map.empty,
      gctx_Job = \<lparr>JobContext_Status = ConclusionZero\<rparr>, gctx_Steps = None,
      gctx_Needs = None, gctx_Matrix = Map.empty\<rparr>"

definition zero_ExprContext :: ExprContext where
  "zero_ExprContext =
     \<lparr>Expr_Github = zero_GithubContext, Expr_Runner = zero_RunnerContext,
      Expr_Job = \<lparr>JobContext_Status = ConclusionZero\<rparr>, Expr_Steps = None,
      Expr_Secrets = \<lparr>Secrets_Data = Map.empty\<rparr>, Expr_Inputs = Map.empty\<rparr>"

text \<open>The needs entry \<open>SetJob\<close> stores for the record of a needed job.\<close>

definition NeedContext_of :: "JobRun \<Rightarrow> NeedContext" where
  "NeedContext_of j =
     \<lparr>NeedContext_Result = JobRun_Conclusion j, NeedContext_Outputs = JobRun_Outputs j\<rparr>"

section \<open>Shared lemmas\<close>

lemmas run_defs =
  SetWorkflow_def SetJob_def SetStep_def UnsetStep_def UnsetJob_def SetJobResults_def
  a_WorkflowRun_def a_JobRun_def a_StepRun_def new_Context_def zero_JobRun_def
  zero_StepRun_def zero_Step_def zero_StepContext_def zero_GithubContext_def
  range_assign_def deref_def export_step_def mapassign_def lookup_job_def Let_def

lemma export_step_keeps_workflow:
  "Execution_WorkflowRun (export_step P r sr c) = Execution_WorkflowRun c"
  by (simp add: export_step_def Let_def)

lemma apply_call_keeps_downgrade:
  assumes "workflow_Conclusion c = Some x" "x \<noteq> ConclusionSuccess"
    "apply_call PJ PS a c = Done c'"
  shows "workflow_Conclusion c' = Some x"
proof (cases a)
  case (CallSetJob jr)
  with assms show ?thesis
    by (auto simp: SetJob_def workflow_Conclusion_def Let_def split: option.splits)
next
  case (CallUnsetJob r)
  with assms show ?thesis
    by (auto simp: UnsetJob_def workflow_Conclusion_def Let_def split: option.splits if_splits)
next
  case (CallSetJobResults cn oc outs)
  with assms show ?thesis
    by (auto simp: SetJobResults_def workflow_Conclusion_def split: option.splits)
next
  case (CallSetStep sr)
  with assms show ?thesis
    by (auto simp: SetStep_def workflow_Conclusion_def split: option.splits)
next
  case (CallUnsetStep r)
  with assms show ?thesis
    by (auto simp: UnsetStep_def workflow_Conclusion_def export_step_keeps_workflow Let_def
        split: option.splits if_splits)
next
  case (CallSetStepResults cn oc)
  with assms show ?thesis
    by (auto simp: SetStepResults_def workflow_Conclusion_def split: option.splits)
next
  case (CallSetStepOutput k v)
  with assms show ?thesis
    by (auto simp: SetStepOutput_def workflow_Conclusion_def split: option.splits)
next
  case (CallSetStepSummary s)
  with assms show ?thesis
    by (auto simp: SetStepSummary_def workflow_Conclusion_def split: option.splits)
next
  case (CallSetStepState k v)
  with assms show ?thesis
    by (auto simp: SetStepState_def workflow_Conclusion_def split: option.splits)
next
  case (CallAddStepPath p)
  with assms show ?thesis
    by (auto simp: AddStepPath_def workflow_Conclusion_def split: option.splits)
next
  case (CallSetStepEnv k v)
  with assms show ?thesis
    by (auto simp: SetStepEnv_def workflow_Conclusion_def split: option.splits)
qed

lemma run_calls_keeps_downgrade:
  "workflow_Conclusion c = Some x \<Longrightarrow> x \<noteq> ConclusionSuccess \<Longrightarrow>
   run_calls PJ PS calls c = Done c' \<Longrightarrow> workflow_Conclusion c' = Some x"
proof (induction calls arbitrary: c)
  case Nil
  then show ?case by simp
next
  case (Cons a calls)
  show ?case
  proof (cases "apply_call PJ PS a c")
    case (Done c1)
    with Cons.prems have "workflow_Conclusion c1 = Some x"
      using apply_call_keeps_downgrade by blast
    moreover from Done Cons.prems have "run_calls PJ PS calls c1 = Done c'" by simp
    ultimately show ?thesis using Cons.IH Cons.prems(2) by blast
  next
    case (Failed e c1)
    with Cons.prems show ?thesis by simp
  next
    case Panic
    with Cons.prems show ?thesis by simp
  qed
qed

lemma UnsetJob_conclusion:
  assumes "Execution_WorkflowRun c = Some wr" "Execution_JobRun c = Some jr"
    "WorkflowRun_Jobs wr = Some jobs"
  shows "\<exists>c'. UnsetJob P r c = Done c' \<and>
     workflow_Conclusion c' =
       Some (if WorkflowRun_Conclusion wr = ConclusionSuccess
                \<and> JobRun_Conclusion jr \<noteq> ConclusionSuccess
             then JobRun_Conclusion jr else WorkflowRun_Conclusion wr)"
  using assms by (simp add: UnsetJob_def workflow_Conclusion_def Let_def)

lemma UnsetJob_Done_conclusion:
  assumes "UnsetJob P r c = Done c'" "Execution_JobRun c = Some jr"
    "workflow_Conclusion c = Some x"
  shows "workflow_Conclusion c' =
       Some (if x = ConclusionSuccess \<and> JobRun_Conclusion jr \<noteq> ConclusionSuccess
             then JobRun_Conclusion jr else x)"
  using assms
  by (auto simp: UnsetJob_def workflow_Conclusion_def Let_def split: option.splits if_splits)

lemma StepContext_overwritten:
  "sc\<lparr>StepContext_State := StepRun_State sr,
      StepContext_Summary := StepRun_Summary sr,
      StepContext_Outputs := StepRun_Outputs sr,
      StepContext_Outcome := StepRun_Outcome sr,
      StepContext_Conclusion := StepRun_Conclusion sr\<rparr> = StepContext_of sr"
  by (cases sc) (simp add: StepContext_of_def)

lemma export_step_Disk:
  "StepRun_Stage sr = StepStageMain \<Longrightarrow>
   Ctx_Disk (export_step P r sr c) = Ctx_Disk c @ step_files (P c) r sr"
  by (simp add: export_step_def step_files_def Let_def)

lemma export_step_frame:
  "Ctx_Steps (export_step P r sr c) = Ctx_Steps c"
  "Execution_JobRun (export_step P r sr c) = Execution_JobRun c"
  "Ctx_Env (export_step P r sr c) = Ctx_Env c"
  "Ctx_Heap (export_step P r sr c) = Ctx_Heap c"
  by (simp_all add: export_step_def Let_def)

lemma UnsetStep_active:
  assumes "Execution_StepRun c = Some sr" "Execution_WorkflowRun c = Some wr"
    "Execution_JobRun c = Some jr" "Ctx_Steps c = Some steps"
    "range_assign (Workflow_Env (WorkflowRun_Workflow wr)) (Job_Env (JobRun_Job jr)) (Ctx_Heap c)
       = Some h"
  shows "\<exists>c' dir. UnsetStep P r c = Done c'
     \<and> Ctx_Steps c' = Some (steps(Step_ID (StepRun_Step sr) \<mapsto> StepContext_of sr))
     \<and> Execution_JobRun c' = Some (jr\<lparr>JobRun_Steps := JobRun_Steps jr @ [sr]\<rparr>)
     \<and> Execution_StepRun c' = None
     \<and> Ctx_Disk c' = Ctx_Disk c @ step_files dir r sr"
proof (cases "StepRun_Stage sr = StepStageMain")
  case True
  let ?c1 = "c\<lparr>Ctx_Env := Workflow_Env (WorkflowRun_Workflow wr), Ctx_Heap := h,
      Execution_JobRun := Some (jr\<lparr>JobRun_Steps := JobRun_Steps jr @ [sr]\<rparr>),
      Ctx_Steps := Some (steps(Step_ID (StepRun_Step sr) \<mapsto> StepContext_of sr))\<rparr>"
  have "UnsetStep P r c = Done ((export_step P r sr ?c1)\<lparr>Execution_StepRun := None\<rparr>)"
    using assms True by (simp add: UnsetStep_def Let_def StepContext_overwritten)
  then show ?thesis
    using True by (auto simp: export_step_frame export_step_Disk)
next
  case False
  then show ?thesis
    using assms by (simp add: UnsetStep_def Let_def StepContext_overwritten step_files_def)
qed

lemma load_needs_named_key:
  assumes "\<forall>n j. jobs n = Some j \<longrightarrow> Job_ID (JobRun_Job j) = n" "k \<noteq> []"
  shows "load_needs jobs ns acc k =
     (if k \<in> set ns \<and> jobs k \<noteq> None then Some (NeedContext_of (the (jobs k))) else acc k)"
proof (induction ns arbitrary: acc)
  case Nil
  then show ?case by simp
next
  case (Cons n ns)
  show ?case
  proof (cases "jobs n")
    case None
    then show ?thesis
      using assms(2) Cons.IH by (auto simp: lookup_job_def zero_JobRun_def Let_def)
  next
    case (Some j)
    with assms(1) have "Job_ID (JobRun_Job j) = n" by blast
    with Some show ?thesis
      using Cons.IH by (auto simp: lookup_job_def NeedContext_of_def Let_def)
  qed
qed

lemma load_needs_empty_key:
  assumes "\<forall>n j. jobs n = Some j \<longrightarrow> Job_ID (JobRun_Job j) = n" "jobs [] = None"
  shows "load_needs jobs ns acc [] =
     (if \<exists>n \<in> set ns. jobs n = None then Some zero_NeedContext else acc [])"
proof (induction ns arbitrary: acc)
  case Nil
  then show ?case by simp
next
  case (Cons n ns)
  show ?case
  proof (cases "jobs n")
    case None
    then show ?thesis
      using Cons.IH by (auto simp: lookup_job_def zero_JobRun_def zero_NeedContext_def Let_def)
  next
    case (Some j)
    with assms have "Job_ID (JobRun_Job j) = n" "n \<noteq> []" by auto
    with Some show ?thesis
      using Cons.IH by (auto simp: lookup_job_def Let_def)
  qed
qed

lemma SetJob_active:
  assumes "Execution_WorkflowRun c = Some wr" "WorkflowRun_Jobs wr = Some jobs"
    "range_assign (Ctx_Env c) (Job_Env (JobRun_Job jr)) (Ctx_Heap c) = Some h"
  shows "\<exists>c'. SetJob jr c = Done c' \<and> Ctx_Heap c' = h
     \<and> Execution_WorkflowRun c' =
         Some (wr\<lparr>WorkflowRun_Jobs := Some (jobs(Job_ID (JobRun_Job jr) \<mapsto> jr))\<rparr>)
     \<and> Ctx_Needs c' =
         Some (load_needs (jobs(Job_ID (JobRun_Job jr) \<mapsto> jr)) (Job_Needs (JobRun_Job jr)) Map.empty)"
proof (cases "Job_Needs (JobRun_Job jr)")
  case Nil
  then show ?thesis using assms by (simp add: SetJob_def Let_def)
next
  case (Cons n ns)
  then show ?thesis using assms by (simp add: SetJob_def Let_def)
qed

section \<open>Claims\<close>

text \<open>
  Claim C1. The workflow-level conclusion is downgraded at most once, first failure wins
  over the order in which jobs retire. (1) \<open>UnsetJob\<close> with a workflow run, a job run and
  a job map in place returns, and the workflow conclusion becomes the retiring job's
  conclusion exactly when it was still Success and the job's is not Success; otherwise it
  is kept. (2) Once the workflow conclusion is not Success, no sequence of later calls
  (any \<open>UnsetJob\<close> among them, whatever the job's conclusion) changes it. (3) When a job
  with conclusion Failure retires from a workflow still at Success and later a job with
  conclusion Cancelled retires, the workflow conclusion is Failure after the first and
  after the second.
\<close>

theorem C1_workflow_conclusion_first_failure_wins:
  "(Execution_WorkflowRun c = Some wr \<and> Execution_JobRun c = Some jr
      \<and> WorkflowRun_Jobs wr = Some jobs \<longrightarrow>
      (\<exists>cx. UnsetJob PJ r c = Done cx \<and>
         workflow_Conclusion cx =
           Some (if WorkflowRun_Conclusion wr = ConclusionSuccess
                    \<and> JobRun_Conclusion jr \<noteq> ConclusionSuccess
                 then JobRun_Conclusion jr else WorkflowRun_Conclusion wr)))
   \<and> (workflow_Conclusion d = Some x \<and> x \<noteq> ConclusionSuccess
        \<and> run_calls PJ PS calls d = Done d' \<longrightarrow> workflow_Conclusion d' = Some x)
   \<and> (workflow_Conclusion e = Some ConclusionSuccess
        \<and> Execution_JobRun e = Some jx \<and> JobRun_Conclusion jx = ConclusionFailure
        \<and> UnsetJob PJ rx e = Done ex
        \<and> run_calls PJ PS between ex = Done ey
        \<and> Execution_JobRun ey = Some jy \<and> JobRun_Conclusion jy = ConclusionCancelled
        \<and> UnsetJob PJ ry ey = Done ez \<longrightarrow>
        workflow_Conclusion ex = Some ConclusionFailure
        \<and> workflow_Conclusion ez = Some ConclusionFailure)"
proof (intro conjI impI)
  assume "Execution_WorkflowRun c = Some wr \<and> Execution_JobRun c = Some jr
      \<and> WorkflowRun_Jobs wr = Some jobs"
  then show "\<exists>cx. UnsetJob PJ r c = Done cx \<and>
         workflow_Conclusion cx =
           Some (if WorkflowRun_Conclusion wr = ConclusionSuccess
                    \<and> JobRun_Conclusion jr \<noteq> ConclusionSuccess
                 then JobRun_Conclusion jr else WorkflowRun_Conclusion wr)"
    using UnsetJob_conclusion [of c wr jr jobs PJ r] by simp
next
  assume "workflow_Conclusion d = Some x \<and> x \<noteq> ConclusionSuccess
        \<and> run_calls PJ PS calls d = Done d'"
  then show "workflow_Conclusion d' = Some x"
    using run_calls_keeps_downgrade [of d x PJ PS calls d'] by simp
next
  assume h: "workflow_Conclusion e = Some ConclusionSuccess
        \<and> Execution_JobRun e = Some jx \<and> JobRun_Conclusion jx = ConclusionFailure
        \<and> UnsetJob PJ rx e = Done ex
        \<and> run_calls PJ PS between ex = Done ey
        \<and> Execution_JobRun ey = Some jy \<and> JobRun_Conclusion jy = ConclusionCancelled
        \<and> UnsetJob PJ ry ey = Done ez"
  then have ex: "workflow_Conclusion ex = Some ConclusionFailure"
    using UnsetJob_Done_conclusion [of PJ rx e ex jx ConclusionSuccess] by simp
  then show "workflow_Conclusion ex = Some ConclusionFailure" .
  from ex h have "workflow_Conclusion ey = Some ConclusionFailure"
    using run_calls_keeps_downgrade [of ex ConclusionFailure PJ PS between ey] by simp
  with h show "workflow_Conclusion ez = Some ConclusionFailure"
    using UnsetJob_Done_conclusion [of PJ ry ey ez jy ConclusionFailure] by simp
qed

text \<open>
  The run of C1 on the jobs \<open>J1\<close> (Failure) and \<open>J2\<close> (Cancelled), retired in that order.
\<close>

theorem C1_first_failure_run:
  "map_option workflow_Conclusion (returned ff_J1_active) = Some (Some ConclusionSuccess)
   \<and> map_option workflow_Conclusion (returned ff_J1_retired) = Some (Some ConclusionFailure)
   \<and> map_option Execution_JobRun (returned ff_J2_active)
       = Some (Some ((a_JobRun ''J2'' None [])
            \<lparr>JobRun_Conclusion := ConclusionCancelled, JobRun_Outcome := ConclusionCancelled\<rparr>))
   \<and> map_option workflow_Conclusion (returned ff_J2_retired) = Some (Some ConclusionFailure)"
  using C1_workflow_conclusion_first_failure_wins
    [where c = "the (returned ff_J1_active)"
       and wr = "the (Execution_WorkflowRun (the (returned ff_J1_active)))"
       and jr = "the (Execution_JobRun (the (returned ff_J1_active)))"
       and jobs = "the (WorkflowRun_Jobs (the (Execution_WorkflowRun (the (returned ff_J1_active)))))"
       and PJ = "\<lambda>c. ''jobs''" and r = "()" and PS = "\<lambda>c. ''steps''"
       and d = "the (returned ff_J1_retired)" and x = ConclusionFailure
       and calls = "ff_between @ [CallUnsetJob ()]"
       and d' = "the (returned ff_J2_retired)"
       and e = "the (returned ff_J1_active)"
       and jx = "the (Execution_JobRun (the (returned ff_J1_active)))"
       and rx = "()" and ex = "the (returned ff_J1_retired)"
       and between = ff_between and ey = "the (returned ff_J2_active)"
       and jy = "the (Execution_JobRun (the (returned ff_J2_active)))"
       and ry = "()" and ez = "the (returned ff_J2_retired)"]
  by (simp add: ff_J1_active_def ff_J1_retired_def ff_J2_active_def ff_J2_retired_def
      ff_between_def workflow_Conclusion_def run_defs)

text \<open>
  Claim C2. Environment layering, on the run with workflow env \<open>{A: 1}\<close>, job env
  \<open>{B: 2}\<close> and step env \<open>{A: 3}\<close>. While the step is active the resolved env is
  \<open>{A: 3, B: 2}\<close>, as the claim says. After \<open>UnsetStep\<close> the claim expects \<open>{A: 1, B: 2}\<close>;
  the code yields \<open>{A: 3, B: 2}\<close>. \<open>SetWorkflow\<close> makes \<open>c.Env\<close> the very map the workflow
  declares, so \<open>SetJob\<close> and \<open>SetStep\<close> write the job's and the step's entries into the
  workflow's own map, and the assignment \<open>c.Env = c.Execution.WorkflowRun.Workflow.Env\<close>
  in \<open>UnsetStep\<close> restores nothing.
\<close>

theorem C2_env_layering_run:
  "resolved_Env (the (returned env_run_during)) = [''A'' \<mapsto> ''3'', ''B'' \<mapsto> ''2'']
   \<and> resolved_Env (the (returned env_run_after)) = [''A'' \<mapsto> ''3'', ''B'' \<mapsto> ''2'']
   \<and> resolved_Env (the (returned env_run_after)) \<noteq> [''A'' \<mapsto> ''1'', ''B'' \<mapsto> ''2'']"
  by (simp add: env_run_after_def env_run_during_def env_heap_def resolved_Env_def run_defs
      fun_eq_iff)

text \<open>
  Claim C3 says that \<open>UnsetStep\<close> leaves the steps context unchanged unless the retiring
  step run is at stage Main. On the code it fails: retiring the step \<open>compile\<close> at stage
  Pre enters it into the steps context, which was empty.
\<close>

theorem C3_steps_context_changes_at_Pre:
  "active_Stage (the (returned pre_run_before)) = Some StepStagePre
   \<and> Ctx_Steps (the (returned pre_run_before)) = Some Map.empty
   \<and> Ctx_Steps (the (returned pre_run_after))
       = Some [''compile'' \<mapsto> StepContext_of (a_StepRun ''compile'' None StepStagePre)]
   \<and> Ctx_Steps (the (returned pre_run_after)) \<noteq> Ctx_Steps (the (returned pre_run_before))"
  by (simp add: pre_run_after_def pre_run_before_def active_Stage_def StepContext_of_def run_defs)

text \<open>
  Claim C3, amended. \<open>UnsetStep\<close> of an active step run, at whatever stage, returns (given
  the workflow run, the job run and the steps map are in place and the env loop does not
  write to a nil map), stores under the step's ID the step context made of the run's
  State, Summary, Outputs, Outcome and Conclusion, leaves the other entries of the steps
  context as they were, and appends the step run to the job run's \<open>Steps\<close>. Only the
  files written depend on the stage (C8).
\<close>

theorem C3_steps_context_updated_at_every_stage:
  "Execution_StepRun c = Some sr \<and> Execution_WorkflowRun c = Some wr
     \<and> Execution_JobRun c = Some jr \<and> Ctx_Steps c = Some steps
     \<and> range_assign (Workflow_Env (WorkflowRun_Workflow wr)) (Job_Env (JobRun_Job jr))
         (Ctx_Heap c) = Some h \<longrightarrow>
   (\<exists>c'. UnsetStep P r c = Done c'
      \<and> Ctx_Steps c' = Some (steps(Step_ID (StepRun_Step sr) \<mapsto> StepContext_of sr))
      \<and> Execution_JobRun c' = Some (jr\<lparr>JobRun_Steps := JobRun_Steps jr @ [sr]\<rparr>))"
  using UnsetStep_active [of c sr wr jr steps h P r] by blast

text \<open>The amended C3 on the step retiring at stage Pre.\<close>

theorem C3_retiring_at_Pre:
  "Execution_StepRun (the (returned pre_run_before)) = Some (a_StepRun ''compile'' None StepStagePre)
   \<and> Ctx_Steps (the (returned pre_run_before)) = Some Map.empty
   \<and> Ctx_Steps (the (returned pre_run_after))
       = Some [''compile'' \<mapsto> StepContext_of (a_StepRun ''compile'' None StepStagePre)]"
  using C3_steps_context_updated_at_every_stage
    [where c = "the (returned pre_run_before)"
       and sr = "a_StepRun ''compile'' None StepStagePre"
       and wr = "the (Execution_WorkflowRun (the (returned pre_run_before)))"
       and jr = "the (Execution_JobRun (the (returned pre_run_before)))"
       and steps = Map.empty and h = "\<lambda>a. Map.empty"
       and P = "\<lambda>c. ''steps/compile''" and r = "()"]
  by (simp add: pre_run_after_def pre_run_before_def StepContext_of_def run_defs)

text \<open>
  Claim C4 says that after \<open>SetJob(J)\<close> no later mutation of the record of \<open>J1\<close>, of its
  conclusion or of its outputs, changes the needs entry of \<open>J1\<close>. On the code it fails for
  the outputs: the entry holds the reference of the outputs map of \<open>J1\<close>, not a copy, so
  writing \<open>x = w\<close> into that map turns the entry's outputs from \<open>{x: v}\<close> into \<open>{x: w}\<close>.
\<close>

theorem C4_outputs_write_shows_in_needs:
  "need_entry (the (returned needs_run)) ''J1'' = Some (ConclusionSuccess, [''x'' \<mapsto> ''v''])
   \<and> need_entry (the (returned needs_run_mutated)) ''J1''
       = Some (ConclusionSuccess, [''x'' \<mapsto> ''w''])
   \<and> need_entry (the (returned needs_run_mutated)) ''J1''
       \<noteq> need_entry (the (returned needs_run)) ''J1''"
  by (simp add: needs_run_mutated_def write_job_output_def needs_run_def needs_J1_retired_def
      needs_heap_def need_entry_def run_defs fun_eq_iff)

text \<open>
  Claim C4, amended. Let the job map be keyed by the IDs its records carry, hold the
  record \<open>jd\<close> under the needed ID \<open>dep\<close> (not empty, not the ID of the job activated),
  and let the env loop not write to a nil map. Then \<open>SetJob\<close> returns, and the needs
  entry of \<open>dep\<close> has the conclusion of \<open>jd\<close> and the contents of the outputs map of \<open>jd\<close>.
  Storing any other record under \<open>dep\<close> afterwards (another conclusion, another outputs
  map) leaves the entry unchanged: the result is a copy. A write \<open>k = v\<close> into the outputs
  map of \<open>jd\<close> itself shows in the entry: the outputs are shared.
\<close>

theorem C4_needs_entry_shares_outputs:
  "Execution_WorkflowRun c = Some wr \<and> WorkflowRun_Jobs wr = Some jobs
     \<and> (\<forall>n j. jobs n = Some j \<longrightarrow> Job_ID (JobRun_Job j) = n)
     \<and> jobs dep = Some jd \<and> dep \<noteq> [] \<and> dep \<noteq> Job_ID (JobRun_Job jr)
     \<and> dep \<in> set (Job_Needs (JobRun_Job jr))
     \<and> range_assign (Ctx_Env c) (Job_Env (JobRun_Job jr)) (Ctx_Heap c) = Some h \<longrightarrow>
   (\<exists>c'. SetJob jr c = Done c'
      \<and> need_entry c' dep = Some (JobRun_Conclusion jd, deref (Ctx_Heap c') (JobRun_Outputs jd))
      \<and> (\<forall>j'. \<exists>c''. overwrite_job dep j' c' = Done c''
             \<and> need_entry c'' dep = need_entry c' dep)
      \<and> (\<forall>a k v. JobRun_Outputs jd = Some a \<longrightarrow>
            (\<exists>c''. write_job_output dep k v c' = Done c''
               \<and> need_entry c'' dep = Some (JobRun_Conclusion jd, (Ctx_Heap c' a)(k \<mapsto> v)))))"
proof
  assume a: "Execution_WorkflowRun c = Some wr \<and> WorkflowRun_Jobs wr = Some jobs
     \<and> (\<forall>n j. jobs n = Some j \<longrightarrow> Job_ID (JobRun_Job j) = n)
     \<and> jobs dep = Some jd \<and> dep \<noteq> [] \<and> dep \<noteq> Job_ID (JobRun_Job jr)
     \<and> dep \<in> set (Job_Needs (JobRun_Job jr))
     \<and> range_assign (Ctx_Env c) (Job_Env (JobRun_Job jr)) (Ctx_Heap c) = Some h"
  let ?jobs = "jobs(Job_ID (JobRun_Job jr) \<mapsto> jr)"
  let ?ns = "Job_Needs (JobRun_Job jr)"
  from a have keyed: "\<forall>n j. ?jobs n = Some j \<longrightarrow> Job_ID (JobRun_Job j) = n" by auto
  from a have present: "?jobs dep = Some jd" by auto
  from a obtain c' where c': "SetJob jr c = Done c'"
    "Execution_WorkflowRun c' = Some (wr\<lparr>WorkflowRun_Jobs := Some ?jobs\<rparr>)"
    "Ctx_Needs c' = Some (load_needs ?jobs ?ns Map.empty)"
    using SetJob_active [of c wr jobs jr h] by blast
  from a have "dep \<noteq> []" by simp
  then have "load_needs ?jobs ?ns Map.empty dep =
     (if dep \<in> set ?ns \<and> ?jobs dep \<noteq> None then Some (NeedContext_of (the (?jobs dep)))
      else Map.empty dep)"
    by (rule load_needs_named_key [of ?jobs, OF keyed])
  with a present have entry: "load_needs ?jobs ?ns Map.empty dep = Some (NeedContext_of jd)"
    by simp
  have 1: "need_entry c' dep = Some (JobRun_Conclusion jd, deref (Ctx_Heap c') (JobRun_Outputs jd))"
    using c' entry by (simp add: need_entry_def NeedContext_of_def)
  have 2: "\<forall>j'. \<exists>c''. overwrite_job dep j' c' = Done c'' \<and> need_entry c'' dep = need_entry c' dep"
    using c' by (simp add: overwrite_job_def need_entry_def)
  have 3: "\<forall>a k v. JobRun_Outputs jd = Some a \<longrightarrow>
            (\<exists>c''. write_job_output dep k v c' = Done c''
               \<and> need_entry c'' dep = Some (JobRun_Conclusion jd, (Ctx_Heap c' a)(k \<mapsto> v)))"
    using c' entry present
    by (simp add: write_job_output_def lookup_job_def mapassign_def need_entry_def
        NeedContext_of_def deref_def)
  from c'(1) 1 2 3 show "\<exists>c'. SetJob jr c = Done c'
      \<and> need_entry c' dep = Some (JobRun_Conclusion jd, deref (Ctx_Heap c') (JobRun_Outputs jd))
      \<and> (\<forall>j'. \<exists>c''. overwrite_job dep j' c' = Done c''
             \<and> need_entry c'' dep = need_entry c' dep)
      \<and> (\<forall>a k v. JobRun_Outputs jd = Some a \<longrightarrow>
            (\<exists>c''. write_job_output dep k v c' = Done c''
               \<and> need_entry c'' dep = Some (JobRun_Conclusion jd, (Ctx_Heap c' a)(k \<mapsto> v))))"
    by blast
qed

text \<open>
  The amended C4 on the run in which \<open>J1\<close> retired with Success and outputs \<open>{x: v}\<close>: the
  entry is \<open>(Success, {x: v})\<close>, also after a record with conclusion Failure is stored
  under \<open>J1\<close>.
\<close>

theorem C4_needs_of_J:
  "map_option WorkflowRun_Jobs (Execution_WorkflowRun (the (returned needs_J1_retired)))
     = Some (Some [''J1'' \<mapsto> (a_JobRun ''J1'' None [])
          \<lparr>JobRun_Conclusion := ConclusionSuccess, JobRun_Outcome := ConclusionSuccess,
            JobRun_Outputs := Some 0\<rparr>])
   \<and> need_entry (the (returned needs_run)) ''J1'' = Some (ConclusionSuccess, [''x'' \<mapsto> ''v''])
   \<and> need_entry
        (the (returned (and_then needs_run
           (overwrite_job ''J1'' ((a_JobRun ''J1'' None [])\<lparr>JobRun_Conclusion := ConclusionFailure\<rparr>)))))
        ''J1''
       = Some (ConclusionSuccess, [''x'' \<mapsto> ''v''])"
  using C4_needs_entry_shares_outputs
    [where c = "the (returned needs_J1_retired)"
       and wr = "the (Execution_WorkflowRun (the (returned needs_J1_retired)))"
       and jobs = "the (WorkflowRun_Jobs (the (Execution_WorkflowRun (the (returned needs_J1_retired)))))"
       and dep = "''J1''"
       and jd = "(a_JobRun ''J1'' None [])
          \<lparr>JobRun_Conclusion := ConclusionSuccess, JobRun_Outcome := ConclusionSuccess,
            JobRun_Outputs := Some 0\<rparr>"
       and jr = "a_JobRun ''J'' None [''J1'']"
       and h = needs_heap]
  by (simp add: needs_run_def needs_J1_retired_def overwrite_job_def
      needs_heap_def need_entry_def run_defs)

text \<open>
  Claim C5. \<open>resolve outcome continueOnError\<close> is Success when continue-on-error is set
  and the outcome is Failure, and the outcome itself in every other case.
\<close>

theorem C5_resolve:
  "resolve outcome continueOnError =
     (if continueOnError \<and> outcome = ConclusionFailure then ConclusionSuccess else outcome)"
  by (cases outcome; cases continueOnError) simp_all

text \<open>Three values of \<open>resolve\<close>.\<close>

theorem C5_resolve_values:
  "resolve ConclusionFailure True = ConclusionSuccess
   \<and> resolve ConclusionFailure False = ConclusionFailure
   \<and> resolve ConclusionCancelled True = ConclusionCancelled"
  using C5_resolve [of ConclusionFailure True] C5_resolve [of ConclusionFailure False]
    C5_resolve [of ConclusionCancelled True]
  by simp

text \<open>
  Claim C6. \<open>SetJob\<close> without an active workflow run returns the error "no workflow is
  set" (NoActiveWorkflow); \<open>SetStep\<close> without an active job run returns "no job is set"
  (NoActiveJob); \<open>SetStepOutput\<close>, \<open>SetStepResults\<close>, \<open>SetStepState\<close>, \<open>SetStepEnv\<close> and
  \<open>AddStepPath\<close> without an active step run return "no step is set" (NoActiveStep). In
  each case the context is returned as it was.
\<close>

theorem C6_state_discipline:
  "(Execution_WorkflowRun c = None \<longrightarrow> SetJob jr c = Failed ''no workflow is set'' c) \<and>
   (Execution_JobRun c = None \<longrightarrow> SetStep sr c = Failed ''no job is set'' c) \<and>
   (Execution_StepRun c = None \<longrightarrow>
      SetStepOutput k v c = Failed ''no step is set'' c \<and>
      SetStepResults cn oc c = Failed ''no step is set'' c \<and>
      SetStepState k v c = Failed ''no step is set'' c \<and>
      SetStepEnv k v c = Failed ''no step is set'' c \<and>
      AddStepPath p c = Failed ''no step is set'' c)"
  by (simp add: SetJob_def SetStep_def SetStepOutput_def SetStepResults_def SetStepState_def
      SetStepEnv_def AddStepPath_def)

text \<open>The calls of C6 on a context on which nothing has been set.\<close>

theorem C6_calls_on_new_context:
  "Execution_WorkflowRun (new_Context (\<lambda>a. Map.empty)) = None
   \<and> Execution_JobRun (new_Context (\<lambda>a. Map.empty)) = None
   \<and> Execution_StepRun (new_Context (\<lambda>a. Map.empty)) = None
   \<and> SetJob (a_JobRun ''build'' None []) (new_Context (\<lambda>a. Map.empty))
       = Failed ''no workflow is set'' (new_Context (\<lambda>a. Map.empty))
   \<and> SetStep (a_StepRun ''compile'' None StepStageMain) (new_Context (\<lambda>a. Map.empty))
       = Failed ''no job is set'' (new_Context (\<lambda>a. Map.empty))
   \<and> SetStepOutput ''k'' ''1'' (new_Context (\<lambda>a. Map.empty))
       = Failed ''no step is set'' (new_Context (\<lambda>a. Map.empty))"
  using C6_state_discipline
    [of "new_Context (\<lambda>a. Map.empty)" "a_JobRun ''build'' None []"
        "a_StepRun ''compile'' None StepStageMain" "''k''" "''1''"]
  by (simp add: new_Context_def)

text \<open>
  Claim C7. In both providers, \<open>GetVariable\<close> of a name outside the thirteen recognized
  ones returns no value and the error "unknown variable: " followed by the name;
  \<open>GetVariable "infinity"\<close> returns positive infinity; and \<open>GetVariable\<close> of \<open>env\<close>, \<open>vars\<close>
  and \<open>strategy\<close> returns an empty map.
\<close>

theorem C7_GetVariable:
  "(name \<notin> {''github'', ''runner'', ''env'', ''vars'', ''job'', ''steps'', ''secrets'',
              ''strategy'', ''matrix'', ''needs'', ''inputs'', ''infinity'', ''nan''} \<longrightarrow>
      gctx_GetVariable c name = (None, Some (''unknown variable: '' @ name)) \<and>
      ExprContext_GetVariable e name = (None, Some (''unknown variable: '' @ name))) \<and>
   gctx_GetVariable c ''infinity'' = (Some (VFloat PosInf), None) \<and>
   ExprContext_GetVariable e ''infinity'' = (Some (VFloat PosInf), None) \<and>
   (\<forall>n \<in> {''env'', ''vars'', ''strategy''}.
      gctx_GetVariable c n = (Some (VStringMap Map.empty), None) \<and>
      ExprContext_GetVariable e n = (Some (VStringMap Map.empty), None))"
  by (simp add: gctx_GetVariable_def ExprContext_GetVariable_def math_Inf_def)

text \<open>The name \<open>bogus\<close> in both providers.\<close>

theorem C7_GetVariable_bogus:
  "gctx_GetVariable zero_gctx_Context ''bogus'' = (None, Some ''unknown variable: bogus'')
   \<and> ExprContext_GetVariable zero_ExprContext ''bogus'' = (None, Some ''unknown variable: bogus'')
   \<and> gctx_GetVariable zero_gctx_Context ''vars'' = (Some (VStringMap Map.empty), None)
   \<and> ExprContext_GetVariable zero_ExprContext ''strategy'' = (Some (VStringMap Map.empty), None)"
  using C7_GetVariable [of "''bogus''" zero_gctx_Context zero_ExprContext]
  by simp

text \<open>
  Claim C8. \<open>UnsetStep\<close> without an active step run returns without any effect. With an
  active step run (and the workflow run, the job run and the steps map in place, the env
  loop not writing to a nil map) it returns, and the calls it adds to those made to
  package \<open>fs\<close> are: none when the stage is not Main; when the stage is Main, one
  \<open>WriteJSONFile\<close> of \<open>step_run.json\<close> with the step report, followed by one \<open>WriteFile\<close> of
  \<open>summary.md\<close> exactly when the summary is not empty.
\<close>

theorem C8_step_persistence:
  "(Execution_StepRun c = None \<longrightarrow> UnsetStep P r c = Done c)
   \<and> (Execution_StepRun c = Some sr \<and> Execution_WorkflowRun c = Some wr
        \<and> Execution_JobRun c = Some jr \<and> Ctx_Steps c = Some steps
        \<and> range_assign (Workflow_Env (WorkflowRun_Workflow wr)) (Job_Env (JobRun_Job jr))
            (Ctx_Heap c) = Some h \<longrightarrow>
      (\<exists>c' dir. UnsetStep P r c = Done c' \<and> Ctx_Disk c' = Ctx_Disk c @
         (if StepRun_Stage sr = StepStageMain
          then WriteJSONFile (dir, ''step_run.json'') (StepRunReport r sr) #
               (if StepRun_Summary sr \<noteq> []
                then [WriteFile (dir, ''summary.md'') (StepRun_Summary sr) 384]
                else [])
          else [])))"
proof (intro conjI impI)
  assume "Execution_StepRun c = None"
  then show "UnsetStep P r c = Done c" by (simp add: UnsetStep_def)
next
  assume "Execution_StepRun c = Some sr \<and> Execution_WorkflowRun c = Some wr
        \<and> Execution_JobRun c = Some jr \<and> Ctx_Steps c = Some steps
        \<and> range_assign (Workflow_Env (WorkflowRun_Workflow wr)) (Job_Env (JobRun_Job jr))
            (Ctx_Heap c) = Some h"
  then obtain c' dir where "UnsetStep P r c = Done c'"
    "Ctx_Disk c' = Ctx_Disk c @ step_files dir r sr"
    using UnsetStep_active [of c sr wr jr steps h P r] by blast
  then show "\<exists>c' dir. UnsetStep P r c = Done c' \<and> Ctx_Disk c' = Ctx_Disk c @
         (if StepRun_Stage sr = StepStageMain
          then WriteJSONFile (dir, ''step_run.json'') (StepRunReport r sr) #
               (if StepRun_Summary sr \<noteq> []
                then [WriteFile (dir, ''summary.md'') (StepRun_Summary sr) 384]
                else [])
          else [])"
    unfolding step_files_def by blast
qed

text \<open>
  C8 on a step with summary \<open>done\<close> retiring at stage Main (two files) and on a step
  retiring at stage Pre (none).
\<close>

theorem C8_retiring_at_Main_and_at_Pre:
  "Execution_StepRun (the (returned main_run_before))
     = Some ((a_StepRun ''compile'' None StepStageMain)\<lparr>StepRun_Summary := ''done''\<rparr>)
   \<and> Ctx_Disk (the (returned main_run_before)) = []
   \<and> Ctx_Disk (the (returned (and_then main_run_before (UnsetStep (\<lambda>c. ''steps/compile'') ()))))
       = [WriteJSONFile (''steps/compile'', ''step_run.json'')
            (StepRunReport ()
               ((a_StepRun ''compile'' None StepStageMain)\<lparr>StepRun_Summary := ''done''\<rparr>)),
          WriteFile (''steps/compile'', ''summary.md'') ''done'' 384]
   \<and> Ctx_Disk (the (returned pre_run_after)) = []"
  using C8_step_persistence
    [where c = "the (returned main_run_before)"
       and sr = "(a_StepRun ''compile'' None StepStageMain)\<lparr>StepRun_Summary := ''done''\<rparr>"
       and wr = "the (Execution_WorkflowRun (the (returned main_run_before)))"
       and jr = "the (Execution_JobRun (the (returned main_run_before)))"
       and steps = Map.empty and h = "\<lambda>a. Map.empty"
       and P = "\<lambda>c. ''steps/compile''" and r = "()"]
    C8_step_persistence
    [where c = "the (returned pre_run_before)"
       and sr = "a_StepRun ''compile'' None StepStagePre"
       and wr = "the (Execution_WorkflowRun (the (returned pre_run_before)))"
       and jr = "the (Execution_JobRun (the (returned pre_run_before)))"
       and steps = Map.empty and h = "\<lambda>a. Map.empty"
       and P = "\<lambda>c. ''steps/compile''" and r = "()"]
  by (simp add: main_run_before_def pre_run_after_def pre_run_before_def SetStepSummary_def
      run_defs)

text \<open>
  Claim C9. For every workflow run, \<open>SetWorkflow\<close> returns, and the installed run is the
  argument with its conclusion set to Success, whatever conclusion the argument carried.
\<close>

theorem C9_SetWorkflow_conclusion:
  "\<exists>c'. SetWorkflow syncWithEnvValues wr c = Done c' \<and>
     Execution_WorkflowRun c' = Some (wr\<lparr>WorkflowRun_Conclusion := ConclusionSuccess\<rparr>) \<and>
     workflow_Conclusion c' = Some ConclusionSuccess"
  by (simp add: SetWorkflow_def workflow_Conclusion_def Let_def)

text \<open>
  Claim C10. Let the job map be keyed by the IDs its records carry and hold no record
  with the empty ID, let the job activated have a non-empty ID and need an ID \<open>need\<close>
  that is neither in the job map nor its own, and let the env loop not write to a nil
  map. Then \<open>SetJob\<close> returns without error, the needs context has under the empty string
  the entry with the zero result and nil outputs, and it has no entry under \<open>need\<close>
  (when \<open>need\<close> is not itself the empty string).
\<close>

theorem C10_missing_dependency:
  "Execution_WorkflowRun c = Some wr \<and> WorkflowRun_Jobs wr = Some jobs
     \<and> (\<forall>n j. jobs n = Some j \<longrightarrow> Job_ID (JobRun_Job j) = n)
     \<and> jobs [] = None \<and> Job_ID (JobRun_Job jr) \<noteq> []
     \<and> need \<in> set (Job_Needs (JobRun_Job jr))
     \<and> jobs need = None \<and> need \<noteq> Job_ID (JobRun_Job jr)
     \<and> range_assign (Ctx_Env c) (Job_Env (JobRun_Job jr)) (Ctx_Heap c) = Some h \<longrightarrow>
   (\<exists>c' needs. SetJob jr c = Done c' \<and> Ctx_Needs c' = Some needs
      \<and> needs [] = Some \<lparr>NeedContext_Result = ConclusionZero, NeedContext_Outputs = None\<rparr>
      \<and> (need \<noteq> [] \<longrightarrow> needs need = None))"
proof
  assume a: "Execution_WorkflowRun c = Some wr \<and> WorkflowRun_Jobs wr = Some jobs
     \<and> (\<forall>n j. jobs n = Some j \<longrightarrow> Job_ID (JobRun_Job j) = n)
     \<and> jobs [] = None \<and> Job_ID (JobRun_Job jr) \<noteq> []
     \<and> need \<in> set (Job_Needs (JobRun_Job jr))
     \<and> jobs need = None \<and> need \<noteq> Job_ID (JobRun_Job jr)
     \<and> range_assign (Ctx_Env c) (Job_Env (JobRun_Job jr)) (Ctx_Heap c) = Some h"
  let ?jobs = "jobs(Job_ID (JobRun_Job jr) \<mapsto> jr)"
  let ?ns = "Job_Needs (JobRun_Job jr)"
  from a have keyed: "\<forall>n j. ?jobs n = Some j \<longrightarrow> Job_ID (JobRun_Job j) = n" by auto
  from a have none: "?jobs [] = None" by auto
  from a have absent: "?jobs need = None" by auto
  from a obtain c' where c': "SetJob jr c = Done c'"
    "Ctx_Needs c' = Some (load_needs ?jobs ?ns Map.empty)"
    using SetJob_active [of c wr jobs jr h] by blast
  have "load_needs ?jobs ?ns Map.empty [] =
     (if \<exists>n \<in> set ?ns. ?jobs n = None then Some zero_NeedContext else Map.empty [])"
    by (rule load_needs_empty_key [of ?jobs]) (fact keyed, fact none)
  moreover from a absent have "\<exists>n \<in> set ?ns. ?jobs n = None" by blast
  ultimately have e: "load_needs ?jobs ?ns Map.empty [] = Some zero_NeedContext"
    by (simp only: if_True)
  have n: "need \<noteq> [] \<longrightarrow> load_needs ?jobs ?ns Map.empty need = None"
  proof
    assume "need \<noteq> []"
    then have "load_needs ?jobs ?ns Map.empty need =
       (if need \<in> set ?ns \<and> ?jobs need \<noteq> None then Some (NeedContext_of (the (?jobs need)))
        else Map.empty need)"
      by (rule load_needs_named_key [of ?jobs, OF keyed])
    with absent show "load_needs ?jobs ?ns Map.empty need = None" by simp
  qed
  from c' e n show "\<exists>c' needs. SetJob jr c = Done c' \<and> Ctx_Needs c' = Some needs
      \<and> needs [] = Some \<lparr>NeedContext_Result = ConclusionZero, NeedContext_Outputs = None\<rparr>
      \<and> (need \<noteq> [] \<longrightarrow> needs need = None)"
    by (simp add: zero_NeedContext_def)
qed

text \<open>C10 on a job that needs \<open>ghost\<close> in a workflow run without jobs.\<close>

theorem C10_needs_ghost:
  "map_option WorkflowRun_Jobs (Execution_WorkflowRun (the (returned ghost_workflow_set)))
     = Some (Some Map.empty)
   \<and> Ctx_Needs (the (returned ghost_run))
       = Some [[] \<mapsto> \<lparr>NeedContext_Result = ConclusionZero, NeedContext_Outputs = None\<rparr>]"
  using C10_missing_dependency
    [where c = "the (returned ghost_workflow_set)"
       and wr = "the (Execution_WorkflowRun (the (returned ghost_workflow_set)))"
       and jobs = Map.empty
       and jr = "a_JobRun ''J'' None [''ghost'']"
       and need = "''ghost''"
       and h = "\<lambda>a. Map.empty"]
  by (simp add: ghost_run_def ghost_workflow_set_def run_defs)

end
